theory Spec2Isabelle
  imports Main "HOL-Library.Word" "HOL-Library.AList"
begin

section \<open>Exceptions, log records and the ambient process state\<close>

text \<open>
  The module \<^verbatim>\<open>clu/deterministic_data.py\<close> raises Python exceptions and writes
  to the \<^verbatim>\<open>absl\<close> log. An exception is a value \<open>Inl e\<close> of the result; the text
  of its message is kept as the data the format string is filled with.
\<close>

datatype message =
    InvalidHostCombination int int
      \<comment> \<open>"Invalid combination of host_id (..) and host_count (..)."\<close>
  | PleaseSetRng
      \<comment> \<open>"Please set 'rng' when shuffling."\<close>
  | UnusedExamples int
      \<comment> \<open>the value given to the two asserts on \<open>num_unused_examples\<close>\<close>
  | InvalidPadding int "int list" int int
      \<comment> \<open>"Invalid padding=.. (batch_dims=.., cardinality=.., pad_up_to_batches=..)"\<close>
  | DuplicateKeyword string
      \<comment> \<open>"dict() got multiple values for keyword argument '..'"\<close>
  | BatchSizeNotPositive int
      \<comment> \<open>the batch size refused by \<open>Dataset.batch\<close>\<close>
  | ShuffleBufferNotPositive int
      \<comment> \<open>the buffer size refused by \<open>Dataset.shuffle\<close>\<close>
  | PrefetchBufferInvalid int
      \<comment> \<open>the buffer size refused by \<open>Dataset.prefetch\<close>\<close>
  | PartiallyKnownShape "nat option list"
      \<comment> \<open>"Cannot convert a partially known TensorShape .. to a Tensor"\<close>
  | RepeatCountNotInteger
      \<comment> \<open>the float that \<open>Dataset.repeat\<close> cannot take as its \<open>int64\<close> count\<close>

datatype exn =
    ValueError message
  | AssertionError message
  | TypeError message
  | InvalidArgumentError message

datatype log_record =
    Warning_Dropping int int int
      \<comment> \<open>"Dropping %d examples of %d examples (host count: %d)."\<close>

text \<open>
  \<open>jax.host_id()\<close> and \<open>jax.host_count()\<close> read the state of the running process.
  The state is passed in explicitly.
\<close>

record jax_process =
  jax_host_id :: int
  jax_host_count :: int

section \<open>The read instruction of a host\<close>

text \<open>\<open>tfds.core.ReadInstruction(split, from_=.., to=.., unit=..)\<close>\<close>

record ReadInstruction =
  ri_split :: string
  ri_from :: int
  ri_to :: int
  ri_unit :: string

record host_result =
  instruction :: ReadInstruction
  warnings :: "log_record list"

text \<open>Line 121: the examples left over after an even split. Python's \<open>//\<close> is \<open>div\<close>.\<close>

definition num_unused_examples :: "int \<Rightarrow> int \<Rightarrow> int" where
  "num_unused_examples num_examples host_count =
     num_examples - (num_examples div host_count) * host_count"

definition get_read_instruction_for_host ::
  "jax_process \<Rightarrow> string \<Rightarrow> int \<Rightarrow> int option \<Rightarrow> int option \<Rightarrow> bool \<Rightarrow> exn + host_result"
where
  "get_read_instruction_for_host jax split num_examples host_id_arg host_count_arg drop_remainder =
    (let host_id = (case host_id_arg of None \<Rightarrow> jax_host_id jax | Some h \<Rightarrow> h);
         host_count = (case host_count_arg of None \<Rightarrow> jax_host_count jax | Some c \<Rightarrow> c)
     in
       if host_id < 0 \<or> host_id \<ge> host_count \<or> host_count < 1
       then Inl (ValueError (InvalidHostCombination host_id host_count))
       else
         let examples_per_host = num_examples div host_count;
             start = examples_per_host * host_id;
             stop = examples_per_host * (host_id + 1);
             unused = num_unused_examples num_examples host_count
         in
           if \<not> unused \<ge> 0 then Inl (AssertionError (UnusedExamples unused))
           else if \<not> unused < host_count then Inl (AssertionError (UnusedExamples unused))
           else if unused > 0 then
             (if drop_remainder
              then Inr \<lparr>instruction =
                          \<lparr>ri_split = split, ri_from = start, ri_to = stop, ri_unit = ''abs''\<rparr>,
                        warnings = [Warning_Dropping unused num_examples host_count]\<rparr>
              else Inr \<lparr>instruction =
                          \<lparr>ri_split = split,
                           ri_from = start + min host_id unused,
                           ri_to = stop + min (host_id + 1) unused,
                           ri_unit = ''abs''\<rparr>,
                        warnings = []\<rparr>)
           else Inr \<lparr>instruction =
                       \<lparr>ri_split = split, ri_from = start, ri_to = stop, ri_unit = ''abs''\<rparr>,
                     warnings = []\<rparr>)"

text \<open>
  The examples a result stands for: with unit \<open>abs\<close> an instruction reads the half-open
  range of absolute indices from \<open>ri_from\<close> up to \<open>ri_to\<close>; a raised exception reads
  nothing.
\<close>

definition examples_of :: "exn + host_result \<Rightarrow> int set" where
  "examples_of r =
     (case r of Inl e \<Rightarrow> {} | Inr h \<Rightarrow> {ri_from (instruction h) ..< ri_to (instruction h)})"

definition raises :: "exn + 'a \<Rightarrow> bool" where
  "raises r = (case r of Inl e \<Rightarrow> True | Inr v \<Rightarrow> False)"

section \<open>Tensors and feature dictionaries\<close>

text \<open>
  The values the pipeline carries belong to TensorFlow, which is not part of this
  repository. A tensor is modelled by its shape, its dtype and its flattened values; a
  floating-point value is kept as its bit pattern, since the module never computes with
  it. The static shape of a \<open>TensorSpec\<close> can leave an axis unknown (\<open>None\<close>). \<open>Features = Dict[str, Tensor]\<close> is an association list in insertion
  order.
\<close>

datatype dtype = DT_BOOL | DT_INT32 | DT_INT64 | DT_UINT32 | DT_FLOAT | DT_STRING

datatype scalar = BoolV bool | IntV int | FloatV "32 word" | StrV string

datatype tensor = Tensor (t_shape: "nat list") (t_dtype: dtype) (t_vals: "scalar list")

datatype TensorSpec = TensorSpec (shape: "nat option list") (dtype: dtype)

type_synonym features = "(string \<times> tensor) list"
type_synonym feature_spec = "(string \<times> TensorSpec) list"

fun zero_of :: "dtype \<Rightarrow> scalar" where
  "zero_of DT_BOOL = BoolV False"
| "zero_of DT_INT32 = IntV 0"
| "zero_of DT_INT64 = IntV 0"
| "zero_of DT_UINT32 = IntV 0"
| "zero_of DT_FLOAT = FloatV 0"
| "zero_of DT_STRING = StrV []"

text \<open>\<open>tf.zeros(shape, dtype)\<close>\<close>

definition tf_zeros :: "nat list \<Rightarrow> dtype \<Rightarrow> tensor" where
  "tf_zeros sh dt = Tensor sh dt (replicate (prod_list sh) (zero_of dt))"

text \<open>\<open>t[None]\<close>: a new leading axis of length one.\<close>

definition expand_dims0 :: "tensor \<Rightarrow> tensor" where
  "expand_dims0 t = Tensor (1 # t_shape t) (t_dtype t) (t_vals t)"

text \<open>\<open>t[i]\<close>: the \<open>i\<close>-th slice along the leading axis.\<close>

definition slice0 :: "nat \<Rightarrow> tensor \<Rightarrow> tensor" where
  "slice0 i t =
     (let m = prod_list (tl (t_shape t))
      in Tensor (tl (t_shape t)) (t_dtype t) (take m (drop (i * m) (t_vals t))))"

text \<open>
  \<open>tf.cast\<close> between integer dtypes keeps the low bits of the value: a value out of the
  range of the target dtype wraps around. Other casts do not occur in the module.
\<close>

fun wrap_int :: "dtype \<Rightarrow> int \<Rightarrow> int" where
  "wrap_int DT_INT32 v = sint (word_of_int v :: 32 word)"
| "wrap_int DT_INT64 v = sint (word_of_int v :: 64 word)"
| "wrap_int DT_UINT32 v = uint (word_of_int v :: 32 word)"
| "wrap_int dt v = v"

fun cast_scalar :: "dtype \<Rightarrow> scalar \<Rightarrow> scalar" where
  "cast_scalar dt (IntV v) = IntV (wrap_int dt v)"
| "cast_scalar dt x = x"

definition tf_cast :: "tensor \<Rightarrow> dtype \<Rightarrow> tensor" where
  "tf_cast t dt = Tensor (t_shape t) dt (map (cast_scalar dt) (t_vals t))"

text \<open>Stacking the tensors of one batch along a new leading axis.\<close>

fun tf_stack :: "tensor list \<Rightarrow> tensor" where
  "tf_stack [] = Tensor [0] DT_BOOL []"
| "tf_stack (t # ts) =
     Tensor (Suc (length ts) # t_shape t) (t_dtype t) (concat (map t_vals (t # ts)))"

fun batch_features :: "features list \<Rightarrow> features" where
  "batch_features [] = []"
| "batch_features (f # fs) =
     map (\<lambda>(name, t). (name, tf_stack (List.map_filter (\<lambda>g. map_of g name) (f # fs)))) f"

section \<open>A model of \<open>tf.data.Dataset\<close>\<close>

text \<open>
  A dataset is the sequence of its elements, finite or unbounded, together with the two
  things TensorFlow knows about it without iterating: the cardinality it reports and the
  specification of its elements. \<open>Dataset.cardinality()\<close> returns the number of elements,
  or one of two negative constants.
\<close>

datatype 'a elems = Fin "'a list" | Inf "nat \<Rightarrow> 'a"

record ('a, 's) dataset =
  elems :: "'a elems"
  cardinality :: int
  element_spec :: 's

definition INFINITE_CARDINALITY :: int where
  "INFINITE_CARDINALITY = - 1"

definition UNKNOWN_CARDINALITY :: int where
  "UNKNOWN_CARDINALITY = - 2"

definition int64_max :: int where
  "int64_max = 2 ^ 63 - 1"

fun map_elems :: "('a \<Rightarrow> 'b) \<Rightarrow> 'a elems \<Rightarrow> 'b elems" where
  "map_elems f (Fin xs) = Fin (map f xs)"
| "map_elems f (Inf g) = Inf (\<lambda>i. f (g i))"

text \<open>
  Filtering an unbounded input searches for the next element the predicate accepts, and
  the search need not end: \<open>next_accepted p g i\<close> is the first position from \<open>i\<close> on
  that holds an accepted element, \<open>None\<close> when there is none. Where fewer than \<open>k + 1\<close>
  elements are accepted the iteration waits forever for its \<open>k\<close>-th element, and the
  model has no value for it.
\<close>

partial_function (option) next_accepted :: "('a \<Rightarrow> bool) \<Rightarrow> (nat \<Rightarrow> 'a) \<Rightarrow> nat \<Rightarrow> nat option" where
  "next_accepted p g i = (if p (g i) then Some i else next_accepted p g (Suc i))"

declare next_accepted.simps [code]

fun accepted_index :: "('a \<Rightarrow> bool) \<Rightarrow> (nat \<Rightarrow> 'a) \<Rightarrow> nat \<Rightarrow> nat option" where
  "accepted_index p g 0 = next_accepted p g 0"
| "accepted_index p g (Suc k) =
     (case accepted_index p g k of None \<Rightarrow> None | Some j \<Rightarrow> next_accepted p g (Suc j))"

fun filter_elems :: "('a \<Rightarrow> bool) \<Rightarrow> 'a elems \<Rightarrow> 'a elems" where
  "filter_elems p (Fin xs) = Fin (filter p xs)"
| "filter_elems p (Inf g) = Inf (\<lambda>k. g (the (accepted_index p g k)))"

fun repeat_elems :: "int \<Rightarrow> 'a elems \<Rightarrow> 'a elems" where
  "repeat_elems count (Fin xs) =
     (if count < 0
      then (if xs = [] then Fin [] else Inf (\<lambda>i. xs ! (i mod length xs)))
      else Fin (concat (replicate (nat count) xs)))"
| "repeat_elems count (Inf g) = (if count = 0 then Fin [] else Inf g)"

fun concatenate_elems :: "'a elems \<Rightarrow> 'a elems \<Rightarrow> 'a elems" where
  "concatenate_elems (Fin xs) (Fin ys) = Fin (xs @ ys)"
| "concatenate_elems (Fin xs) (Inf g) =
     Inf (\<lambda>i. if i < length xs then xs ! i else g (i - length xs))"
| "concatenate_elems (Inf f) ys = Inf f"

definition index_tensor :: "nat \<Rightarrow> tensor" where
  "index_tensor i = Tensor [] DT_INT64 [IntV (int i)]"

text \<open>
  \<open>Dataset.enumerate()\<close> zips the dataset with \<open>Dataset.range(0, int64 max)\<close>: the
  indices are \<open>int64\<close> scalars counting from 0, and the result ends with the range.
\<close>

fun enumerate_elems :: "'a elems \<Rightarrow> (tensor \<times> 'a) elems" where
  "enumerate_elems (Fin xs) =
     Fin (map (\<lambda>(i, x). (index_tensor i, x))
            (List.enumerate 0
               (if int (length xs) \<le> int64_max then xs else take (nat int64_max) xs)))"
| "enumerate_elems (Inf g) = Fin (map (\<lambda>i. (index_tensor i, g i)) [0..<nat int64_max])"

text \<open>Groups of \<open>n\<close> consecutive elements; a final partial group is dropped.\<close>

definition chunks :: "nat \<Rightarrow> 'a list \<Rightarrow> 'a list list" where
  "chunks n xs = map (\<lambda>i. take n (drop (i * n) xs)) [0..<length xs div n]"

fun batch_elems :: "nat \<Rightarrow> features elems \<Rightarrow> features elems" where
  "batch_elems n (Fin xs) = Fin (map batch_features (chunks n xs))"
| "batch_elems n (Inf g) = Inf (\<lambda>i. batch_features (map g [i * n..<i * n + n]))"

text \<open>\<open>ds.filter(predicate)\<close>: the cardinality of a filtered dataset is unknown.\<close>

definition ds_filter :: "('a \<Rightarrow> bool) \<Rightarrow> ('a, 's) dataset \<Rightarrow> ('a, 's) dataset" where
  "ds_filter p ds =
     \<lparr>elems = filter_elems p (elems ds),
      cardinality = UNKNOWN_CARDINALITY,
      element_spec = element_spec ds\<rparr>"

text \<open>
  \<open>ds.cache()\<close> and \<open>ds.prefetch(buffer_size)\<close> change neither the elements nor the
  cardinality. The buffer size of \<open>prefetch\<close> is a number of elements or
  \<open>AUTOTUNE = -1\<close>; TensorFlow refuses a smaller one when the dataset is built.
\<close>

definition ds_cache :: "('a, 's) dataset \<Rightarrow> ('a, 's) dataset" where
  "ds_cache ds = ds"

definition AUTOTUNE :: int where
  "AUTOTUNE = - 1"

definition ds_prefetch :: "int \<Rightarrow> ('a, 's) dataset \<Rightarrow> exn + ('a, 's) dataset" where
  "ds_prefetch buffer_size ds =
     (if buffer_size \<ge> 0 \<or> buffer_size = AUTOTUNE then Inr ds
      else Inl (InvalidArgumentError (PrefetchBufferInvalid buffer_size)))"

text \<open>\<open>ds.repeat(count)\<close>: \<open>None\<close> stands for \<open>-1\<close>, and a negative count repeats forever.\<close>

definition ds_repeat :: "int option \<Rightarrow> ('a, 's) dataset \<Rightarrow> ('a, 's) dataset" where
  "ds_repeat count_arg ds =
     (let count = (case count_arg of None \<Rightarrow> - 1 | Some c \<Rightarrow> c);
          n = cardinality ds
      in \<lparr>elems = repeat_elems count (elems ds),
          cardinality =
            (if count < 0 then (if n = 0 then 0 else INFINITE_CARDINALITY)
             else if count = 0 then 0
             else if n = INFINITE_CARDINALITY \<or> n = UNKNOWN_CARDINALITY then n
             else count * n),
          element_spec = element_spec ds\<rparr>)"

text \<open>\<open>ds.map(f)\<close>; the specification of the mapped elements comes from tracing \<open>f\<close>.\<close>

definition ds_map :: "('a \<Rightarrow> 'b) \<Rightarrow> 't \<Rightarrow> ('a, 's) dataset \<Rightarrow> ('b, 't) dataset" where
  "ds_map f spec ds =
     \<lparr>elems = map_elems f (elems ds), cardinality = cardinality ds, element_spec = spec\<rparr>"

definition ds_enumerate :: "('a, 's) dataset \<Rightarrow> (tensor \<times> 'a, TensorSpec \<times> 's) dataset" where
  "ds_enumerate ds =
     (let n = cardinality ds
      in \<lparr>elems = enumerate_elems (elems ds),
          cardinality =
            (if n = UNKNOWN_CARDINALITY then UNKNOWN_CARDINALITY
             else if n = INFINITE_CARDINALITY then int64_max
             else min n int64_max),
          element_spec = (TensorSpec [] DT_INT64, element_spec ds)\<rparr>)"

definition ds_concatenate :: "('a, 's) dataset \<Rightarrow> ('a, 's) dataset \<Rightarrow> ('a, 's) dataset" where
  "ds_concatenate ds other =
     (let n1 = cardinality ds; n2 = cardinality other
      in \<lparr>elems = concatenate_elems (elems ds) (elems other),
          cardinality =
            (if n1 = INFINITE_CARDINALITY \<or> n2 = INFINITE_CARDINALITY then INFINITE_CARDINALITY
             else if n1 = UNKNOWN_CARDINALITY \<or> n2 = UNKNOWN_CARDINALITY then UNKNOWN_CARDINALITY
             else n1 + n2),
          element_spec = element_spec ds\<rparr>)"

text \<open>
  \<open>ds.batch(batch_size, drop_remainder=True)\<close>. The batch size is an \<open>int64\<close> scalar,
  read as a signed number. TensorFlow refuses a batch size that is not positive when the
  dataset is built.
\<close>

definition ds_batch ::
  "64 word \<Rightarrow> (features, feature_spec) dataset \<Rightarrow> exn + (features, feature_spec) dataset"
where
  "ds_batch batch_size ds =
     (if sint batch_size \<le> 0
      then Inl (InvalidArgumentError (BatchSizeNotPositive (sint batch_size)))
      else
        let n = cardinality ds
        in Inr \<lparr>elems = batch_elems (nat (sint batch_size)) (elems ds),
                cardinality =
                  (if n = INFINITE_CARDINALITY \<or> n = UNKNOWN_CARDINALITY then n
                   else n div sint batch_size),
                element_spec =
                  map (\<lambda>(name, s).
                         (name, TensorSpec (Some (nat (sint batch_size)) # shape s) (dtype s)))
                    (element_spec ds)\<rparr>)"

text \<open>
  \<open>Dataset.from_tensor_slices(d)\<close> for a dictionary of tensors that agree on their
  leading axis: one element for each index along it.
\<close>

definition from_tensor_slices :: "features \<Rightarrow> (features, feature_spec) dataset" where
  "from_tensor_slices d =
     (let n = (case d of [] \<Rightarrow> 0 | (name, t) # rest \<Rightarrow> hd (t_shape t))
      in \<lparr>elems = Fin (map (\<lambda>i. map (\<lambda>(name, t). (name, slice0 i t)) d) [0..<n]),
          cardinality = int n,
          element_spec =
            map (\<lambda>(name, t). (name, TensorSpec (map Some (tl (t_shape t))) (t_dtype t))) d\<rparr>)"

section \<open>The collaborators of \<open>create_dataset\<close>\<close>

text \<open>
  Three library functions compute values the module only passes on: \<open>jax.random.split\<close>,
  \<open>tf.random.experimental.stateless_fold_in\<close> and the order in which \<open>Dataset.shuffle\<close>
  yields its input. They are parameters of the model. \<open>jax_random_split key n i\<close> is the
  \<open>i\<close>-th of the \<open>n\<close> keys that \<open>jax.random.split(key, n)\<close> returns.
\<close>

record externals =
  jax_random_split :: "tensor \<Rightarrow> nat \<Rightarrow> nat \<Rightarrow> tensor"
  stateless_fold_in :: "tensor \<Rightarrow> tensor \<Rightarrow> tensor"
  shuffle_elems :: "int \<Rightarrow> tensor option \<Rightarrow> features elems \<Rightarrow> features elems"

text \<open>
  \<open>ds.shuffle(buffer_size, seed=seed)\<close> keeps the cardinality. The TensorFlow of the
  module's time (2.3) refuses a buffer size that is not positive when the dataset is
  built.
\<close>

definition ds_shuffle ::
  "externals \<Rightarrow> int \<Rightarrow> tensor option \<Rightarrow> (features, 's) dataset
     \<Rightarrow> exn + (features, 's) dataset"
where
  "ds_shuffle ext buffer_size seed ds =
     (if buffer_size \<le> 0
      then Inl (InvalidArgumentError (ShuffleBufferNotPositive buffer_size))
      else Inr \<lparr>elems = shuffle_elems ext buffer_size seed (elems ds),
                cardinality = cardinality ds,
                element_spec = element_spec ds\<rparr>)"

text \<open>
  A function given to \<open>Dataset.map\<close> is traced once: \<open>signature\<close> is what tracing
  makes of the specification of the elements, \<open>call\<close> what the function makes of an
  element.
\<close>

record traced_fn =
  call :: "features \<Rightarrow> features"
  signature :: "feature_spec \<Rightarrow> feature_spec"

text \<open>
  The dataset builder: \<open>as_dataset(split, shuffle_files, read_config, decoders)\<close>.
\<close>

datatype split_arg = SplitName string | SplitInstruction ReadInstruction

record dataset_options =
  map_parallelization :: bool
  private_threadpool_size :: int
  max_intra_op_parallelism :: int

record read_config =
  shuffle_seed :: "tensor option"
  options :: dataset_options

type_synonym 'd dataset_builder =
  "split_arg \<Rightarrow> bool \<Rightarrow> read_config \<Rightarrow> 'd option \<Rightarrow> (features, feature_spec) dataset"

section \<open>Preprocessing with one key for each example\<close>

text \<open>
  The inner function \<open>_fn\<close> of \<open>_preprocess_with_per_example_rng\<close> (lines 155 to 162).
  Line 156 casts the \<open>int64\<close> index of the enumeration to \<open>int32\<close>; line 158 casts the
  key to \<open>int64\<close>.
\<close>

definition cast_example_index :: "tensor \<Rightarrow> tensor" where
  "cast_example_index example_index = tf_cast example_index DT_INT32"

definition example_fn ::
  "externals \<Rightarrow> (features \<Rightarrow> features) \<Rightarrow> tensor \<Rightarrow> tensor \<Rightarrow> features \<Rightarrow> features"
where
  "example_fn ext preprocess_fn rng example_index features =
     (let example_index = cast_example_index example_index;
          features = AList.update ''rng''
                       (stateless_fold_in ext (tf_cast rng DT_INT64) example_index) features;
          processed = preprocess_fn features
      in if ''rng'' \<in> fst ` set processed then AList.delete ''rng'' processed else processed)"

text \<open>
  What tracing \<open>_fn\<close> makes of the element specification: the folded key has shape
  \<open>[2]\<close> and the dtype of the index that was folded in.
\<close>

definition example_fn_signature :: "traced_fn \<Rightarrow> feature_spec \<Rightarrow> feature_spec" where
  "example_fn_signature preprocess_fn spec =
     (let processed = signature preprocess_fn (AList.update ''rng'' (TensorSpec [Some 2] DT_INT32) spec)
      in if ''rng'' \<in> fst ` set processed then AList.delete ''rng'' processed else processed)"

definition preprocess_with_per_example_rng ::
  "externals \<Rightarrow> (features, feature_spec) dataset \<Rightarrow> traced_fn \<Rightarrow> tensor
     \<Rightarrow> (features, feature_spec) dataset"
where
  "preprocess_with_per_example_rng ext ds preprocess_fn rng =
     ds_map (\<lambda>(example_index, features). example_fn ext (call preprocess_fn) rng example_index features)
       (example_fn_signature preprocess_fn (element_spec ds))
       (ds_enumerate ds)"

section \<open>\<open>create_dataset\<close>\<close>

text \<open>
  The batch sizes and \<open>pad_up_to_batches\<close> are \<open>int64\<close> values, read as signed numbers:
  numpy multiplies them as such and TensorFlow takes no other batch size.
\<close>

record 'd create_dataset_args =
  split :: split_arg
  batch_dims :: "64 word list"
  rng :: "tensor option"
  filter_fn :: "(features \<Rightarrow> bool) option"
  preprocess_fn :: "traced_fn option"
  decoders :: "'d option"
  cache :: bool
  num_epochs :: "int option"
  shuffle :: bool
  shuffle_buffer_size :: int
  prefetch_size :: int
  pad_up_to_batches :: "64 word option"

text \<open>The defaults of the keyword arguments (lines 167 to 181).\<close>

definition default_args :: "split_arg \<Rightarrow> 'd create_dataset_args" where
  "default_args s =
     \<lparr>split = s, batch_dims = [], rng = None, filter_fn = None, preprocess_fn = None,
      decoders = None, cache = False, num_epochs = None, shuffle = True,
      shuffle_buffer_size = 10000, prefetch_size = 4, pad_up_to_batches = None\<rparr>"

text \<open>
  An entry of the list \<open>rngs\<close>: a key returned by \<open>jax.random.split\<close>, or the
  placeholder \<open>[None, None]\<close> of line 228. \<open>rngs.pop()\<close> takes the last entry.
\<close>

datatype rng_entry = Key tensor | Placeholder

fun first_component :: "rng_entry \<Rightarrow> tensor option" where
  "first_component (Key k) = Some (slice0 0 k)"
| "first_component Placeholder = None"

definition pop :: "'a list \<Rightarrow> 'a \<times> 'a list" where
  "pop xs = (last xs, butlast xs)"

text \<open>
  Lines 222 to 256: the seed check, the split of the key, reading, filtering, caching,
  repeating, shuffling and preprocessing. In line 254 \<open>rng\<close> is set, so the entry popped
  there is a key.
\<close>

definition read_and_preprocess ::
  "externals \<Rightarrow> 'd dataset_builder \<Rightarrow> 'd create_dataset_args
     \<Rightarrow> exn + (features, feature_spec) dataset"
where
  "read_and_preprocess ext dataset_builder args =
    (let rng_available = (rng args \<noteq> None)
     in
       if \<not> rng_available \<and> shuffle args then Inl (ValueError PleaseSetRng)
       else
         let rngs = (case rng args of
                       Some r \<Rightarrow> map (\<lambda>i. Key (jax_random_split ext r 3 i)) [0, 1, 2]
                     | None \<Rightarrow> replicate 3 Placeholder);
             dataset_options = \<lparr>map_parallelization = True, private_threadpool_size = 48,
                                max_intra_op_parallelism = 1\<rparr>;
             (entry, rngs) = pop rngs;
             read_config = \<lparr>shuffle_seed = first_component entry, options = dataset_options\<rparr>;
             ds = dataset_builder (split args) (shuffle args) read_config (decoders args);
             ds = (case filter_fn args of None \<Rightarrow> ds | Some p \<Rightarrow> ds_filter p ds);
             ds = (if cache args then ds_cache ds else ds);
             ds = ds_repeat (num_epochs args) ds;
             (shuffled, rngs) =
               (if shuffle args
                then (let (entry, rngs) = pop rngs
                      in (ds_shuffle ext (shuffle_buffer_size args) (first_component entry) ds, rngs))
                else (Inr ds, rngs))
         in
           case shuffled of
             Inl e \<Rightarrow> Inl e
           | Inr ds \<Rightarrow>
               Inr (case preprocess_fn args of
                      None \<Rightarrow> ds
                    | Some f \<Rightarrow>
                        if rng_available
                        then (case fst (pop rngs) of
                                Key k \<Rightarrow> preprocess_with_per_example_rng ext ds f k
                              | Placeholder \<Rightarrow> ds)
                        else ds_map (call f) (signature f (element_spec ds)) ds))"

text \<open>
  The value of the \<open>float64\<close> nearest to an integer of at most 64 bits (ties go to the
  even mantissa): what Python makes of an \<open>int\<close> that meets a numpy float.
\<close>

definition float64_of_int :: "int \<Rightarrow> int" where
  "float64_of_int k =
     (let a = \<bar>k\<bar>;
          e = length (filter (\<lambda>i. 2 ^ (53 + i) \<le> a) [0..<12])
      in if e = 0 then k
         else
           let q = a div 2 ^ e;
               r = a mod 2 ^ e;
               h = 2 ^ (e - 1);
               q' = (if r > h \<or> (r = h \<and> odd q) then q + 1 else q)
           in sgn k * (q' * 2 ^ e))"

text \<open>
  Lines 258 to 273: padding. \<open>if pad_up_to_batches:\<close> is false for \<open>None\<close> and for
  \<open>0\<close>.

  Lines 259 to 265 build the filler. \<open>tf.zeros\<close> raises a \<open>ValueError\<close> for the first
  feature whose shape has an unknown axis; then \<open>dict(..., mask=[False])\<close> raises a
  \<open>TypeError\<close> when the elements already have a feature called \<open>mask\<close> (as would the
  \<open>dict(mask=True, ...)\<close> of line 267).
\<close>

definition filler_dataset :: "feature_spec \<Rightarrow> exn + (features, feature_spec) dataset" where
  "filler_dataset spec =
     (case List.find (\<lambda>(name, s). None \<in> set (shape s)) spec of
        Some (name, s) \<Rightarrow> Inl (ValueError (PartiallyKnownShape (shape s)))
      | None \<Rightarrow>
          if ''mask'' \<in> fst ` set spec then Inl (TypeError (DuplicateKeyword ''mask''))
          else Inr (from_tensor_slices
                 (map (\<lambda>(name, s). (name, expand_dims0 (tf_zeros (map the (shape s)) (dtype s))))
                    spec
                  @ [(''mask'', Tensor [1] DT_BOOL [BoolV False])])))"

definition add_mask :: "features \<Rightarrow> features" where
  "add_mask features = (''mask'', Tensor [] DT_BOOL [BoolV True]) # features"

text \<open>
  Line 269. For a batch dimension or more, \<open>np.prod\<close> multiplies in \<open>int64\<close> and the
  product, the multiplication by \<open>pad_up_to_batches\<close> and the subtraction wrap around.
  For an empty \<open>batch_dims\<close> \<open>np.prod\<close> is the float \<open>1.0\<close>: the padding is a float,
  the assertion compares floats, and \<open>Dataset.repeat\<close> refuses the float as its count.
  \<open>int(ds.cardinality())\<close> is the cardinality the dataset reports, one of the two
  negative constants included.
\<close>

definition np_prod :: "64 word list \<Rightarrow> 64 word" where
  "np_prod dims = prod_list dims"

definition pad_up_to ::
  "64 word option \<Rightarrow> 64 word list \<Rightarrow> (features, feature_spec) dataset
     \<Rightarrow> exn + (features, feature_spec) dataset"
where
  "pad_up_to pad_up_to_batches_arg batch_dims_arg ds =
    (case pad_up_to_batches_arg of
       None \<Rightarrow> Inr ds
     | Some p \<Rightarrow>
         if p = 0 then Inr ds
         else
           case filler_dataset (element_spec ds) of
             Inl e \<Rightarrow> Inl e
           | Inr filler_ds \<Rightarrow>
               let ds = ds_map add_mask ((''mask'', TensorSpec [] DT_BOOL) # element_spec ds) ds
               in
                 if batch_dims_arg = []
                 then
                   let padding =
                         float64_of_int
                           (float64_of_int (sint p) - float64_of_int (cardinality ds))
                   in
                     if \<not> padding \<ge> 0
                     then Inl (AssertionError
                                (InvalidPadding padding [] (cardinality ds) (sint p)))
                     else Inl (TypeError RepeatCountNotInteger)
                 else
                   let padding = p * np_prod batch_dims_arg - word_of_int (cardinality ds)
                   in
                     if \<not> sint padding \<ge> 0
                     then Inl (AssertionError
                                (InvalidPadding (sint padding) (map sint batch_dims_arg)
                                   (cardinality ds) (sint p)))
                     else Inr (ds_concatenate ds (ds_repeat (Some (sint padding)) filler_ds)))"

text \<open>Lines 275 to 277: one \<open>batch\<close> for each batch dimension, innermost first.\<close>

fun batch_loop ::
  "64 word list \<Rightarrow> (features, feature_spec) dataset \<Rightarrow> exn + (features, feature_spec) dataset"
where
  "batch_loop [] ds = Inr ds"
| "batch_loop (batch_size # rest) ds =
     (case ds_batch batch_size ds of Inl e \<Rightarrow> Inl e | Inr ds' \<Rightarrow> batch_loop rest ds')"

definition create_dataset ::
  "externals \<Rightarrow> 'd dataset_builder \<Rightarrow> 'd create_dataset_args
     \<Rightarrow> exn + (features, feature_spec) dataset"
where
  "create_dataset ext dataset_builder args =
    (case read_and_preprocess ext dataset_builder args of
       Inl e \<Rightarrow> Inl e
     | Inr ds \<Rightarrow>
         (case pad_up_to (pad_up_to_batches args) (batch_dims args) ds of
            Inl e \<Rightarrow> Inl e
          | Inr ds \<Rightarrow>
              (case batch_loop (rev (batch_dims args)) ds of
                 Inl e \<Rightarrow> Inl e
               | Inr ds \<Rightarrow> ds_prefetch (prefetch_size args) ds)))"

section \<open>Inputs of the examples\<close>

text \<open>
  A dataset builder over \<open>n\<close> examples with a single \<open>int64\<close> feature \<open>x\<close> that counts
  from 0, reporting its cardinality; collaborators that return the key unchanged, stack
  the first component of the seed with the folded value and leave the order of the
  examples alone; and the \<open>mask\<close> values of the batches of a finite result.
\<close>

definition range_builder :: "nat \<Rightarrow> unit dataset_builder" where
  "range_builder n split_arg shuffle_files config decoders_arg =
     \<lparr>elems = Fin (map (\<lambda>i. [(''x'', index_tensor i)]) [0..<n]),
      cardinality = int n,
      element_spec = [(''x'', TensorSpec [] DT_INT64)]\<rparr>"

definition plain_externals :: externals where
  "plain_externals =
     \<lparr>jax_random_split = (\<lambda>key n i. key),
      stateless_fold_in = (\<lambda>seed data. tf_stack [slice0 0 seed, data]),
      shuffle_elems = (\<lambda>buffer_size seed xs. xs)\<rparr>"

definition accept_all :: "features \<Rightarrow> bool" where
  "accept_all features = True"

definition masks :: "exn + (features, feature_spec) dataset \<Rightarrow> exn + scalar list list" where
  "masks r =
     (case r of
        Inl e \<Rightarrow> Inl e
      | Inr ds \<Rightarrow>
          (case elems ds of
             Fin bs \<Rightarrow> Inr (map (\<lambda>b. case map_of b ''mask'' of None \<Rightarrow> [] | Some t \<Rightarrow> t_vals t) bs)
           | Inf g \<Rightarrow> Inr []))"

text \<open>The element a sequence yields at a position, if it yields one there.\<close>

definition element_at :: "'a elems \<Rightarrow> nat \<Rightarrow> 'a option" where
  "element_at e i =
     (case e of
        Fin xs \<Rightarrow> (if i < length xs then Some (xs ! i) else None)
      | Inf g \<Rightarrow> Some (g i))"

text \<open>
  The record the padding is made of: a zero tensor for every feature of an element
  specification whose shapes are known, and \<open>mask = False\<close>.
\<close>

definition zero_record :: "feature_spec \<Rightarrow> features" where
  "zero_record spec =
     map (\<lambda>(name, s). (name, tf_zeros (map the (shape s)) (dtype s))) spec
     @ [(''mask'', Tensor [] DT_BOOL [BoolV False])]"

section \<open>Properties of the shard planner\<close>


lemma num_unused_examples_mod: "num_unused_examples n hc = n mod hc"
  by (simp add: num_unused_examples_def minus_div_mult_eq_mod)

lemma num_unused_examples_bounds:
  "1 \<le> hc \<Longrightarrow> 0 \<le> num_unused_examples n hc \<and> num_unused_examples n hc < hc"
  by (simp add: num_unused_examples_mod)

lemma valid_host_result:
  assumes "0 \<le> h" "h < hc"
  shows "get_read_instruction_for_host jax s n (Some h) (Some hc) d =
    Inr \<lparr>instruction =
            \<lparr>ri_split = s,
             ri_from = (n div hc) * h + (if d then 0 else min h (num_unused_examples n hc)),
             ri_to = (n div hc) * (h + 1) + (if d then 0 else min (h + 1) (num_unused_examples n hc)),
             ri_unit = ''abs''\<rparr>,
          warnings = (if d \<and> 0 < num_unused_examples n hc
                      then [Warning_Dropping (num_unused_examples n hc) n hc] else [])\<rparr>"
proof -
  from assms have hc: "1 \<le> hc" by simp
  note b = num_unused_examples_bounds [OF hc, of n]
  show ?thesis
  proof (cases "0 < num_unused_examples n hc")
    case True
    with assms b show ?thesis
      by (simp add: get_read_instruction_for_host_def Let_def)
  next
    case False
    with b have z: "num_unused_examples n hc = 0" by simp
    with assms show ?thesis
      by (simp add: get_read_instruction_for_host_def Let_def)
  qed
qed

lemma consecutive_ranges:
  fixes s :: "int \<Rightarrow> int"
  assumes "\<And>i. 0 \<le> i \<Longrightarrow> i < int k \<Longrightarrow> s i \<le> s (i + 1)"
  shows "(\<Union>i\<in>{0..<int k}. {s i..<s (i + 1)}) = {s 0..<s (int k)} \<and> s 0 \<le> s (int k)"
  using assms
proof (induction k)
  case 0
  then show ?case by simp
next
  case (Suc k)
  have ih: "(\<Union>i\<in>{0..<int k}. {s i..<s (i + 1)}) = {s 0..<s (int k)}" "s 0 \<le> s (int k)"
    using Suc.IH Suc.prems by simp_all
  have step: "s (int k) \<le> s (int k + 1)" using Suc.prems [of "int k"] by simp
  have split: "{0..<int (Suc k)} = insert (int k) {0..<int k}" by auto
  have "(\<Union>i\<in>{0..<int (Suc k)}. {s i..<s (i + 1)}) = {s (int k)..<s (int k + 1)} \<union> {s 0..<s (int k)}"
    unfolding split using ih(1) by simp
  also have "\<dots> = {s 0..<s (int k + 1)}" using ih(2) step by auto
  finally show ?case using ih(2) step by (simp add: add.commute)
qed


lemma shard_start_mono:
  fixes p r :: int
  assumes "0 \<le> p" "i \<le> j"
  shows "p * i + min i r \<le> p * j + min j r"
proof -
  have "p * i \<le> p * j" by (rule mult_left_mono [OF assms(2) assms(1)])
  moreover have "min i r \<le> min j r" using assms(2) by simp
  ultimately show ?thesis by simp
qed

text \<open>
  Claim C1. For \<open>num_examples \<ge> 0\<close>, \<open>host_count \<ge> 1\<close> and \<open>drop_remainder = False\<close>,
  every host \<open>h\<close> of \<open>0 .. host_count - 1\<close> gets the range from
  \<open>per_host * h + min h r\<close> up to \<open>per_host * (h + 1) + min (h + 1) r\<close>, where
  \<open>per_host = num_examples div host_count\<close> and \<open>r = num_examples - per_host * host_count\<close>;
  the ranges of all hosts together are exactly the indices \<open>0 .. num_examples - 1\<close>, the
  ranges of two different hosts share no index, and every range has \<open>per_host\<close> or
  \<open>per_host + 1\<close> indices.
\<close>

theorem shards_partition_all_examples:
  assumes n: "0 \<le> n" and hc: "1 \<le> hc"
  shows
   "(\<forall>h\<in>{0..<hc}.
       get_read_instruction_for_host jax s n (Some h) (Some hc) False =
         Inr \<lparr>instruction =
                \<lparr>ri_split = s,
                 ri_from = (n div hc) * h + min h (n - (n div hc) * hc),
                 ri_to = (n div hc) * (h + 1) + min (h + 1) (n - (n div hc) * hc),
                 ri_unit = ''abs''\<rparr>,
              warnings = []\<rparr>) \<and>
    (\<Union>h\<in>{0..<hc}. examples_of (get_read_instruction_for_host jax s n (Some h) (Some hc) False))
       = {0..<n} \<and>
    (\<forall>h\<in>{0..<hc}. \<forall>h'\<in>{0..<hc}. h \<noteq> h' \<longrightarrow>
       examples_of (get_read_instruction_for_host jax s n (Some h) (Some hc) False) \<inter>
       examples_of (get_read_instruction_for_host jax s n (Some h') (Some hc) False) = {}) \<and>
    (\<forall>h\<in>{0..<hc}. \<exists>r.
       get_read_instruction_for_host jax s n (Some h) (Some hc) False = Inr r \<and>
       ri_to (instruction r) - ri_from (instruction r) \<in> {n div hc, n div hc + 1})"
proof -
  define p where "p = n div hc"
  define r where "r = num_unused_examples n hc"
  define st where "st = (\<lambda>h. p * h + min h r)"
  have r_eq: "r = n - (n div hc) * hc" by (simp add: r_def num_unused_examples_def)
  have rb: "0 \<le> r" "r < hc" using num_unused_examples_bounds [OF hc, of n] by (simp_all add: r_def)
  have p0: "0 \<le> p" using n hc by (simp add: p_def pos_imp_zdiv_nonneg_iff)
  have res: "get_read_instruction_for_host jax s n (Some h) (Some hc) False =
      Inr \<lparr>instruction = \<lparr>ri_split = s, ri_from = st h, ri_to = st (h + 1), ri_unit = ''abs''\<rparr>,
           warnings = []\<rparr>" if "h \<in> {0..<hc}" for h
    using that valid_host_result [of h hc jax s n False] by (simp add: st_def p_def r_def)
  have ex: "examples_of (get_read_instruction_for_host jax s n (Some h) (Some hc) False) =
      {st h..<st (h + 1)}" if "h \<in> {0..<hc}" for h
    using res [OF that] by (simp add: examples_of_def)
  have mono: "st i \<le> st j" if "i \<le> j" for i j
    unfolding st_def using p0 that by (rule shard_start_mono)
  have st0: "st 0 = 0" using rb by (simp add: st_def)
  have sthc: "st hc = n" using rb by (simp add: st_def p_def r_def num_unused_examples_def)
  have c1: "\<forall>h\<in>{0..<hc}.
       get_read_instruction_for_host jax s n (Some h) (Some hc) False =
         Inr \<lparr>instruction =
                \<lparr>ri_split = s,
                 ri_from = (n div hc) * h + min h (n - (n div hc) * hc),
                 ri_to = (n div hc) * (h + 1) + min (h + 1) (n - (n div hc) * hc),
                 ri_unit = ''abs''\<rparr>,
              warnings = []\<rparr>"
    using res by (simp add: st_def p_def r_eq)
  have "(\<Union>h\<in>{0..<int (nat hc)}. {st h..<st (h + 1)}) = {st 0..<st (int (nat hc))}"
    using consecutive_ranges [of "nat hc" st] mono by simp
  then have "(\<Union>h\<in>{0..<hc}. {st h..<st (h + 1)}) = {0..<n}"
    using hc st0 sthc by simp
  then have c2: "(\<Union>h\<in>{0..<hc}. examples_of (get_read_instruction_for_host jax s n (Some h) (Some hc) False))
       = {0..<n}"
    using ex by simp
  have disj: "{st h..<st (h + 1)} \<inter> {st h'..<st (h' + 1)} = {}" if "h < h'" for h h'
  proof -
    have "st (h + 1) \<le> st h'" using that by (intro mono) simp
    then show ?thesis by auto
  qed
  have c3: "\<forall>h\<in>{0..<hc}. \<forall>h'\<in>{0..<hc}. h \<noteq> h' \<longrightarrow>
       examples_of (get_read_instruction_for_host jax s n (Some h) (Some hc) False) \<inter>
       examples_of (get_read_instruction_for_host jax s n (Some h') (Some hc) False) = {}"
  proof (intro ballI impI)
    fix h h' assume hh: "h \<in> {0..<hc}" "h' \<in> {0..<hc}" "h \<noteq> h'"
    then consider "h < h'" | "h' < h" by linarith
    then have "{st h..<st (h + 1)} \<inter> {st h'..<st (h' + 1)} = {}"
    proof cases
      case 1 then show ?thesis by (rule disj)
    next
      case 2 then show ?thesis using disj [of h' h] by (simp add: Int_commute)
    qed
    then show "examples_of (get_read_instruction_for_host jax s n (Some h) (Some hc) False) \<inter>
       examples_of (get_read_instruction_for_host jax s n (Some h') (Some hc) False) = {}"
      using ex hh by simp
  qed
  have len: "st (h + 1) - st h \<in> {p, p + 1}" for h
    by (simp add: st_def algebra_simps min_def)
  have c4: "\<forall>h\<in>{0..<hc}. \<exists>r.
       get_read_instruction_for_host jax s n (Some h) (Some hc) False = Inr r \<and>
       ri_to (instruction r) - ri_from (instruction r) \<in> {n div hc, n div hc + 1}"
  proof
    fix h assume h: "h \<in> {0..<hc}"
    show "\<exists>r. get_read_instruction_for_host jax s n (Some h) (Some hc) False = Inr r \<and>
       ri_to (instruction r) - ri_from (instruction r) \<in> {n div hc, n div hc + 1}"
      using res [OF h] len [of h] by (simp add: p_def)
  qed
  from c1 c2 c3 c4 show ?thesis by blast
qed

theorem shards_partition_all_examples_witness:
  "get_read_instruction_for_host \<lparr>jax_host_id = 0, jax_host_count = 1\<rparr> ''train'' 10 (Some 0) (Some 3) False =
     Inr \<lparr>instruction = \<lparr>ri_split = ''train'', ri_from = 0, ri_to = 4, ri_unit = ''abs''\<rparr>, warnings = []\<rparr> \<and>
   get_read_instruction_for_host \<lparr>jax_host_id = 0, jax_host_count = 1\<rparr> ''train'' 10 (Some 1) (Some 3) False =
     Inr \<lparr>instruction = \<lparr>ri_split = ''train'', ri_from = 4, ri_to = 7, ri_unit = ''abs''\<rparr>, warnings = []\<rparr> \<and>
   get_read_instruction_for_host \<lparr>jax_host_id = 0, jax_host_count = 1\<rparr> ''train'' 10 (Some 2) (Some 3) False =
     Inr \<lparr>instruction = \<lparr>ri_split = ''train'', ri_from = 7, ri_to = 10, ri_unit = ''abs''\<rparr>, warnings = []\<rparr> \<and>
   (\<Union>h\<in>{0..<3}. examples_of (get_read_instruction_for_host \<lparr>jax_host_id = 0, jax_host_count = 1\<rparr> ''train'' 10 (Some h) (Some 3) False))
     = {0..<10}"
proof -
  have a: "(0::int) \<le> 10" and b: "(1::int) \<le> 3" by simp_all
  note t = shards_partition_all_examples [OF a b, of "\<lparr>jax_host_id = 0, jax_host_count = 1\<rparr>" "''train''"]
  from t have r: "\<forall>h\<in>{0..<3}.
       get_read_instruction_for_host \<lparr>jax_host_id = 0, jax_host_count = 1\<rparr> ''train'' 10 (Some h) (Some 3) False =
         Inr \<lparr>instruction =
                \<lparr>ri_split = ''train'',
                 ri_from = (10 div 3) * h + min h (10 - (10 div 3) * 3),
                 ri_to = (10 div 3) * (h + 1) + min (h + 1) (10 - (10 div 3) * 3),
                 ri_unit = ''abs''\<rparr>,
              warnings = []\<rparr>" by blast
  from t have u: "(\<Union>h\<in>{0..<3}. examples_of (get_read_instruction_for_host \<lparr>jax_host_id = 0, jax_host_count = 1\<rparr> ''train'' 10 (Some h) (Some 3) False))
     = {0..<10}" by blast
  from r [rule_format, of 0] r [rule_format, of 1] r [rule_format, of 2] u show ?thesis by simp
qed


lemma base_ranges_union:
  fixes p :: int
  assumes "0 \<le> p" "1 \<le> hc"
  shows "(\<Union>h\<in>{0..<hc}. {p * h..<p * (h + 1)}) = {0..<hc * p}"
proof -
  have "(\<Union>h\<in>{0..<int (nat hc)}. {p * h..<p * (h + 1)}) = {p * 0..<p * int (nat hc)}"
    using consecutive_ranges [of "nat hc" "\<lambda>h. p * h"] assms(1)
    by (simp add: mult_left_mono)
  then show ?thesis using assms(2) by (simp add: mult.commute)
qed

text \<open>
  Claim C2. For \<open>num_examples \<ge> 0\<close>, \<open>host_count \<ge> 1\<close> and \<open>drop_remainder = True\<close>,
  every host \<open>h\<close> gets the base range from \<open>per_host * h\<close> up to \<open>per_host * (h + 1)\<close>,
  of exactly \<open>per_host\<close> indices (a warning is logged when examples are left over); the
  ranges together are the indices below \<open>host_count * per_host\<close>, and no host reads one
  of the trailing indices from \<open>host_count * per_host\<close> up to \<open>num_examples\<close>.
\<close>

theorem shards_drop_remainder:
  assumes n: "0 \<le> n" and hc: "1 \<le> hc"
  shows
   "(\<forall>h\<in>{0..<hc}.
       get_read_instruction_for_host jax s n (Some h) (Some hc) True =
         Inr \<lparr>instruction =
                \<lparr>ri_split = s,
                 ri_from = (n div hc) * h,
                 ri_to = (n div hc) * (h + 1),
                 ri_unit = ''abs''\<rparr>,
              warnings =
                (if 0 < num_unused_examples n hc
                 then [Warning_Dropping (num_unused_examples n hc) n hc] else [])\<rparr>) \<and>
    (\<forall>h\<in>{0..<hc}. \<exists>r.
       get_read_instruction_for_host jax s n (Some h) (Some hc) True = Inr r \<and>
       ri_to (instruction r) - ri_from (instruction r) = n div hc) \<and>
    (\<Union>h\<in>{0..<hc}. examples_of (get_read_instruction_for_host jax s n (Some h) (Some hc) True))
       = {0..<hc * (n div hc)} \<and>
    (\<forall>h\<in>{0..<hc}. \<forall>x\<in>{hc * (n div hc)..<n}.
       x \<notin> examples_of (get_read_instruction_for_host jax s n (Some h) (Some hc) True))"
proof -
  define p where "p = n div hc"
  have p0: "0 \<le> p" using n hc by (simp add: p_def pos_imp_zdiv_nonneg_iff)
  have res: "get_read_instruction_for_host jax s n (Some h) (Some hc) True =
      Inr \<lparr>instruction = \<lparr>ri_split = s, ri_from = p * h, ri_to = p * (h + 1), ri_unit = ''abs''\<rparr>,
           warnings = (if 0 < num_unused_examples n hc
                 then [Warning_Dropping (num_unused_examples n hc) n hc] else [])\<rparr>"
    if "h \<in> {0..<hc}" for h
    using that valid_host_result [of h hc jax s n True] by (simp add: p_def)
  have ex: "examples_of (get_read_instruction_for_host jax s n (Some h) (Some hc) True) =
      {p * h..<p * (h + 1)}" if "h \<in> {0..<hc}" for h
    using res [OF that] by (simp add: examples_of_def)
  have c1: "\<forall>h\<in>{0..<hc}.
       get_read_instruction_for_host jax s n (Some h) (Some hc) True =
         Inr \<lparr>instruction =
                \<lparr>ri_split = s,
                 ri_from = (n div hc) * h,
                 ri_to = (n div hc) * (h + 1),
                 ri_unit = ''abs''\<rparr>,
              warnings =
                (if 0 < num_unused_examples n hc
                 then [Warning_Dropping (num_unused_examples n hc) n hc] else [])\<rparr>"
    using res by (simp add: p_def)
  have c2: "\<forall>h\<in>{0..<hc}. \<exists>r.
       get_read_instruction_for_host jax s n (Some h) (Some hc) True = Inr r \<and>
       ri_to (instruction r) - ri_from (instruction r) = n div hc"
  proof
    fix h assume h: "h \<in> {0..<hc}"
    show "\<exists>r. get_read_instruction_for_host jax s n (Some h) (Some hc) True = Inr r \<and>
       ri_to (instruction r) - ri_from (instruction r) = n div hc"
      using res [OF h] by (simp add: p_def algebra_simps)
  qed
  have c3: "(\<Union>h\<in>{0..<hc}. examples_of (get_read_instruction_for_host jax s n (Some h) (Some hc) True))
       = {0..<hc * (n div hc)}"
    using ex base_ranges_union [OF p0 hc] by (simp add: p_def)
  have c4: "\<forall>h\<in>{0..<hc}. \<forall>x\<in>{hc * (n div hc)..<n}.
       x \<notin> examples_of (get_read_instruction_for_host jax s n (Some h) (Some hc) True)"
  proof (intro ballI notI)
    fix h x
    assume h: "h \<in> {0..<hc}" and x: "x \<in> {hc * (n div hc)..<n}"
      and m: "x \<in> examples_of (get_read_instruction_for_host jax s n (Some h) (Some hc) True)"
    from h m have "x \<in> (\<Union>h\<in>{0..<hc}. examples_of (get_read_instruction_for_host jax s n (Some h) (Some hc) True))"
      by blast
    with c3 have "x < hc * (n div hc)" by simp
    with x show False by simp
  qed
  from c1 c2 c3 c4 show ?thesis by blast
qed

theorem shards_drop_remainder_witness:
  "get_read_instruction_for_host \<lparr>jax_host_id = 0, jax_host_count = 1\<rparr> ''train'' 10 (Some 2) (Some 3) True =
     Inr \<lparr>instruction = \<lparr>ri_split = ''train'', ri_from = 6, ri_to = 9, ri_unit = ''abs''\<rparr>,
          warnings = [Warning_Dropping 1 10 3]\<rparr> \<and>
   (\<Union>h\<in>{0..<3}. examples_of (get_read_instruction_for_host \<lparr>jax_host_id = 0, jax_host_count = 1\<rparr> ''train'' 10 (Some h) (Some 3) True))
     = {0..<9}"
proof -
  have a: "(0::int) \<le> 10" and b: "(1::int) \<le> 3" by simp_all
  note t = shards_drop_remainder [OF a b, of "\<lparr>jax_host_id = 0, jax_host_count = 1\<rparr>" "''train''"]
  from t have r: "\<forall>h\<in>{0..<3}.
       get_read_instruction_for_host \<lparr>jax_host_id = 0, jax_host_count = 1\<rparr> ''train'' 10 (Some h) (Some 3) True =
         Inr \<lparr>instruction =
                \<lparr>ri_split = ''train'',
                 ri_from = (10 div 3) * h,
                 ri_to = (10 div 3) * (h + 1),
                 ri_unit = ''abs''\<rparr>,
              warnings =
                (if 0 < num_unused_examples 10 3
                 then [Warning_Dropping (num_unused_examples 10 3) 10 3] else [])\<rparr>" by blast
  from t have u: "(\<Union>h\<in>{0..<3}. examples_of (get_read_instruction_for_host \<lparr>jax_host_id = 0, jax_host_count = 1\<rparr> ''train'' 10 (Some h) (Some 3) True))
     = {0..<3 * (10 div 3)}" by blast
  from r [rule_format, of 2] u show ?thesis by (simp add: num_unused_examples_def)
qed

text \<open>
  Claim C3. The call raises exactly when \<open>host_id < 0\<close> or \<open>host_id \<ge> host_count\<close> or
  \<open>host_count < 1\<close>, and then raises the \<open>ValueError\<close> of line 112 (the spec's invalid
  topology error); in particular for \<open>host_id = host_count\<close>, \<open>host_id = -1\<close> and
  \<open>host_count = 0\<close>. For every other input it returns an instruction (whatever
  \<open>num_examples\<close> is).
\<close>

theorem invalid_topology_raises:
  "(raises (get_read_instruction_for_host jax s n (Some h) (Some hc) d)
      \<longleftrightarrow> (h < 0 \<or> hc \<le> h \<or> hc < 1)) \<and>
   (h < 0 \<or> hc \<le> h \<or> hc < 1 \<longrightarrow>
      get_read_instruction_for_host jax s n (Some h) (Some hc) d =
        Inl (ValueError (InvalidHostCombination h hc))) \<and>
   get_read_instruction_for_host jax s n (Some hc) (Some hc) d =
     Inl (ValueError (InvalidHostCombination hc hc)) \<and>
   get_read_instruction_for_host jax s n (Some (- 1)) (Some hc) d =
     Inl (ValueError (InvalidHostCombination (- 1) hc)) \<and>
   get_read_instruction_for_host jax s n (Some h) (Some 0) d =
     Inl (ValueError (InvalidHostCombination h 0))"
proof -
  have bad: "get_read_instruction_for_host jax s n (Some a) (Some c) d =
        Inl (ValueError (InvalidHostCombination a c))" if "a < 0 \<or> c \<le> a \<or> c < 1" for a c
    using that by (simp add: get_read_instruction_for_host_def)
  have good: "\<not> raises (get_read_instruction_for_host jax s n (Some h) (Some hc) d)"
    if "\<not> (h < 0 \<or> hc \<le> h \<or> hc < 1)"
    using that valid_host_result [of h hc jax s n d] by (simp add: raises_def)
  have c1: "raises (get_read_instruction_for_host jax s n (Some h) (Some hc) d)
      \<longleftrightarrow> (h < 0 \<or> hc \<le> h \<or> hc < 1)"
    using good bad [of h hc] by (auto simp: raises_def)
  have c5: "get_read_instruction_for_host jax s n (Some h) (Some 0) d =
     Inl (ValueError (InvalidHostCombination h 0))"
    by (rule bad) linarith
  from c1 bad [of h hc] bad [of hc hc] bad [of "- 1" hc] c5 show ?thesis by simp
qed

theorem invalid_topology_raises_witness:
  "raises (get_read_instruction_for_host \<lparr>jax_host_id = 0, jax_host_count = 1\<rparr> ''train'' 10 (Some 3) (Some 3) False) \<and>
   \<not> raises (get_read_instruction_for_host \<lparr>jax_host_id = 0, jax_host_count = 1\<rparr> ''train'' 10 (Some 2) (Some 3) False) \<and>
   get_read_instruction_for_host \<lparr>jax_host_id = 0, jax_host_count = 1\<rparr> ''train'' 10 (Some (- 1)) (Some 3) False =
     Inl (ValueError (InvalidHostCombination (- 1) 3)) \<and>
   get_read_instruction_for_host \<lparr>jax_host_id = 0, jax_host_count = 1\<rparr> ''train'' 10 (Some 0) (Some 0) False =
     Inl (ValueError (InvalidHostCombination 0 0))"
  using invalid_topology_raises [of "\<lparr>jax_host_id = 0, jax_host_count = 1\<rparr>" "''train''" 10 3 3 False]
    invalid_topology_raises [of "\<lparr>jax_host_id = 0, jax_host_count = 1\<rparr>" "''train''" 10 2 3 False]
    invalid_topology_raises [of "\<lparr>jax_host_id = 0, jax_host_count = 1\<rparr>" "''train''" 10 0 3 False]
  by simp

text \<open>
  Claim C4 says that the host id and the host count are never read from the state of the
  process. Lines 107 to 110 read them from \<open>jax.host_id()\<close> and \<open>jax.host_count()\<close>
  when the arguments are left out: the same call returns different ranges in two processes.
\<close>

theorem ambient_host_id_counterexample:
  "get_read_instruction_for_host \<lparr>jax_host_id = 0, jax_host_count = 2\<rparr> ''train'' 10 None None False \<noteq>
   get_read_instruction_for_host \<lparr>jax_host_id = 1, jax_host_count = 2\<rparr> ''train'' 10 None None False"
  by (simp add: get_read_instruction_for_host_def num_unused_examples_def)

text \<open>
  Claim C4, amended. When \<open>host_id\<close> and \<open>host_count\<close> are both passed explicitly, the
  result depends on the arguments only: it is the same in every process state.
\<close>

theorem explicit_topology_ignores_process:
  "get_read_instruction_for_host jax s n (Some h) (Some hc) d =
   get_read_instruction_for_host jax' s n (Some h) (Some hc) d"
  by (simp add: get_read_instruction_for_host_def)

text \<open>
  Claim C8. For \<open>host_count \<ge> 1\<close> the remainder \<open>num_examples - (num_examples div
  host_count) * host_count\<close> lies in \<open>0 .. host_count - 1\<close>, and no call of
  \<open>get_read_instruction_for_host\<close> ends in an \<open>AssertionError\<close>: the two asserts of
  lines 122 and 123 never fail.
\<close>

theorem remainder_assertions_hold:
  "(1 \<le> hc \<longrightarrow> 0 \<le> num_unused_examples n hc \<and> num_unused_examples n hc < hc) \<and>
   (\<forall>m. get_read_instruction_for_host jax s n ha ca d \<noteq> Inl (AssertionError m))"
proof -
  define h where "h = (case ha of None \<Rightarrow> jax_host_id jax | Some h \<Rightarrow> h)"
  define c where "c = (case ca of None \<Rightarrow> jax_host_count jax | Some c \<Rightarrow> c)"
  have b: "0 \<le> num_unused_examples n c \<and> num_unused_examples n c < c" if "1 \<le> c"
    using that by (rule num_unused_examples_bounds)
  have "get_read_instruction_for_host jax s n ha ca d \<noteq> Inl (AssertionError m)" for m
  proof (cases "h < 0 \<or> c \<le> h \<or> c < 1")
    case True
    then show ?thesis
      by (simp add: get_read_instruction_for_host_def h_def [symmetric] c_def [symmetric])
  next
    case False
    then have "1 \<le> c" by simp
    from b [OF this] False show ?thesis
      by (simp add: get_read_instruction_for_host_def Let_def h_def [symmetric] c_def [symmetric])
  qed
  then show ?thesis using num_unused_examples_bounds [of hc n] by blast
qed

theorem remainder_assertions_hold_witness:
  "0 \<le> num_unused_examples 10 3 \<and> num_unused_examples 10 3 < 3 \<and>
   get_read_instruction_for_host \<lparr>jax_host_id = 0, jax_host_count = 1\<rparr> ''train'' 10 (Some 1) (Some 3) True
     \<noteq> Inl (AssertionError (UnusedExamples 1))"
  using remainder_assertions_hold [of 3 10 "\<lparr>jax_host_id = 0, jax_host_count = 1\<rparr>" "''train''" "Some 1" "Some 3" True]
  by simp


section \<open>Properties of \<open>create_dataset\<close>\<close>

lemma read_and_preprocess_ignores_padding:
  "read_and_preprocess ext b (args\<lparr>pad_up_to_batches := x\<rparr>) = read_and_preprocess ext b args"
  by (simp add: read_and_preprocess_def Let_def
      cong: if_cong option.case_cong prod.case_cong rng_entry.case_cong sum.case_cong)

lemma read_and_preprocess_Inl_iff:
  "read_and_preprocess ext b args = Inl e \<longleftrightarrow>
     (e = ValueError PleaseSetRng \<and> shuffle args \<and> rng args = None) \<or>
     (e = InvalidArgumentError (ShuffleBufferNotPositive (shuffle_buffer_size args)) \<and>
      shuffle args \<and> rng args \<noteq> None \<and> shuffle_buffer_size args \<le> 0)"
  by (auto simp: read_and_preprocess_def Let_def case_prod_beta ds_shuffle_def
      split: sum.splits if_splits)

lemma read_without_shuffle:
  "\<not> shuffle args \<Longrightarrow> \<exists>ds. read_and_preprocess ext b args = Inr ds"
  by (cases "read_and_preprocess ext b args") (auto simp: read_and_preprocess_Inl_iff)

lemma read_with_buffer:
  "\<not> (shuffle args \<and> rng args = None) \<Longrightarrow> 0 < shuffle_buffer_size args
     \<Longrightarrow> \<exists>ds. read_and_preprocess ext b args = Inr ds"
  by (cases "read_and_preprocess ext b args") (auto simp: read_and_preprocess_Inl_iff)

lemma filler_dataset_Inl:
  "filler_dataset spec = Inl e \<Longrightarrow>
     (\<exists>sh. e = ValueError (PartiallyKnownShape sh)) \<or> e = TypeError (DuplicateKeyword ''mask'')"
  by (auto simp: filler_dataset_def split: option.splits if_splits)

lemma pad_up_to_Inl:
  "pad_up_to p dims ds = Inl e \<Longrightarrow>
     (\<exists>sh. e = ValueError (PartiallyKnownShape sh)) \<or> (\<exists>m. e = TypeError m) \<or>
     (\<exists>m. e = AssertionError m)"
  by (auto simp: pad_up_to_def Let_def dest: filler_dataset_Inl
      split: option.splits if_splits sum.splits)

lemma batch_loop_Inl:
  "batch_loop bs ds = Inl e \<Longrightarrow> \<exists>m. e = InvalidArgumentError m"
proof (induction bs arbitrary: ds)
  case Nil
  then show ?case by simp
next
  case (Cons b bs)
  then show ?case
    by (auto simp: ds_batch_def Let_def split: sum.splits if_splits)
qed

lemma ds_prefetch_Inl:
  "ds_prefetch n ds = Inl e \<Longrightarrow> \<exists>m. e = InvalidArgumentError m"
  by (auto simp: ds_prefetch_def split: if_splits)

lemma create_dataset_Inl_cases:
  assumes "create_dataset ext b args = Inl e"
  shows "(e = ValueError PleaseSetRng \<and> shuffle args \<and> rng args = None) \<or>
         (\<exists>sh. e = ValueError (PartiallyKnownShape sh)) \<or>
         (\<exists>m. e = TypeError m) \<or> (\<exists>m. e = AssertionError m) \<or>
         (\<exists>m. e = InvalidArgumentError m)"
proof (cases "read_and_preprocess ext b args")
  case (Inl e1)
  with assms have "e = e1" by (simp add: create_dataset_def)
  with Inl show ?thesis by (auto simp: read_and_preprocess_Inl_iff)
next
  case (Inr ds)
  show ?thesis
  proof (cases "pad_up_to (pad_up_to_batches args) (batch_dims args) ds")
    case (Inl e2)
    with Inr assms have "e = e2" by (simp add: create_dataset_def)
    with pad_up_to_Inl [OF Inl] show ?thesis by blast
  next
    case pad: (Inr ds2)
    show ?thesis
    proof (cases "batch_loop (rev (batch_dims args)) ds2")
      case (Inl e3)
      with Inr pad assms have "e = e3" by (simp add: create_dataset_def)
      with batch_loop_Inl [OF Inl] show ?thesis by blast
    next
      case b3: (Inr ds3)
      with Inr pad assms have "ds_prefetch (prefetch_size args) ds3 = Inl e"
        by (simp add: create_dataset_def)
      from ds_prefetch_Inl [OF this] show ?thesis by blast
    qed
  qed
qed

lemma slice0_expand_zeros: "slice0 0 (expand_dims0 (tf_zeros sh dt)) = tf_zeros sh dt"
  by (simp add: slice0_def expand_dims0_def tf_zeros_def)

lemma filler_leading_axis:
  "(case map (\<lambda>(name, s). (name, expand_dims0 (tf_zeros (map the (shape s)) (dtype s)))) spec
          @ [(''mask'', Tensor [1] DT_BOOL [BoolV False])] of
      [] \<Rightarrow> 0 | (name, t) # rest \<Rightarrow> hd (t_shape t)) = 1"
  by (cases spec) (auto simp: expand_dims0_def)

lemma filler_dataset_elems:
  assumes "\<forall>(name, s)\<in>set spec. None \<notin> set (shape s)" and "''mask'' \<notin> fst ` set spec"
  shows "\<exists>f. filler_dataset spec = Inr f \<and> elems f = Fin [zero_record spec] \<and> cardinality f = 1"
proof -
  have none: "List.find (\<lambda>(name, s). None \<in> set (shape s)) spec = None"
    using assms(1) by (auto simp: find_None_iff)
  have m: "slice0 0 (Tensor [1] DT_BOOL [BoolV False]) = Tensor [] DT_BOOL [BoolV False]"
    by (simp add: slice0_def)
  have "filler_dataset spec =
      Inr (from_tensor_slices
             (map (\<lambda>(name, s). (name, expand_dims0 (tf_zeros (map the (shape s)) (dtype s)))) spec
              @ [(''mask'', Tensor [1] DT_BOOL [BoolV False])]))"
    using none assms(2) by (simp add: filler_dataset_def)
  moreover have "elems (from_tensor_slices
             (map (\<lambda>(name, s). (name, expand_dims0 (tf_zeros (map the (shape s)) (dtype s)))) spec
              @ [(''mask'', Tensor [1] DT_BOOL [BoolV False])])) = Fin [zero_record spec]"
    using m unfolding from_tensor_slices_def filler_leading_axis zero_record_def
    by (auto simp: slice0_expand_zeros)
  moreover have "cardinality (from_tensor_slices
             (map (\<lambda>(name, s). (name, expand_dims0 (tf_zeros (map the (shape s)) (dtype s)))) spec
              @ [(''mask'', Tensor [1] DT_BOOL [BoolV False])])) = 1"
    unfolding from_tensor_slices_def filler_leading_axis by simp
  ultimately show ?thesis by simp
qed

lemma concat_replicate_single: "concat (replicate n [x]) = replicate n x"
  by (induction n) simp_all

lemma pad_up_to_exact:
  assumes xs: "elems ds = Fin xs" and card: "cardinality ds = int (length xs)"
    and p: "p \<noteq> 0" and dims: "dims \<noteq> []"
    and known: "\<forall>(name, s)\<in>set (element_spec ds). None \<notin> set (shape s)"
    and m: "''mask'' \<notin> fst ` set (element_spec ds)"
    and needed: "0 \<le> sint (p * np_prod dims - word_of_int (int (length xs)))"
  shows "\<exists>ds'. pad_up_to (Some p) dims ds = Inr ds' \<and>
     elems ds' =
       Fin (map add_mask xs @
            replicate (nat (sint (p * np_prod dims - word_of_int (int (length xs)))))
              (zero_record (element_spec ds))) \<and>
     cardinality ds' = int (length xs) + sint (p * np_prod dims - word_of_int (int (length xs)))"
proof -
  define k where "k = sint (p * np_prod dims - word_of_int (int (length xs)))"
  have k0: "0 \<le> k" using needed by (simp add: k_def)
  from filler_dataset_elems [OF known m] obtain f where
    f: "filler_dataset (element_spec ds) = Inr f" and
    fe0: "elems f = Fin [zero_record (element_spec ds)]" and fc0: "cardinality f = 1"
    by blast
  let ?f = "ds_repeat (Some k) f"
  let ?m = "ds_map add_mask ((''mask'', TensorSpec [] DT_BOOL) # element_spec ds) ds"
  have fe: "elems ?f = Fin (replicate (nat k) (zero_record (element_spec ds)))"
    using k0 by (simp add: ds_repeat_def Let_def fe0 concat_replicate_single)
  have fc: "cardinality ?f = k"
    using k0 by (simp add: ds_repeat_def Let_def fc0 INFINITE_CARDINALITY_def
        UNKNOWN_CARDINALITY_def)
  have me: "elems ?m = Fin (map add_mask xs)" and mc: "cardinality ?m = int (length xs)"
    using xs card by (simp_all add: ds_map_def)
  have pad: "pad_up_to (Some p) dims ds = Inr (ds_concatenate ?m ?f)"
    using p dims card k0 f by (simp add: pad_up_to_def Let_def k_def ds_map_def)
  have ce: "elems (ds_concatenate ?m ?f) =
      Fin (map add_mask xs @ replicate (nat k) (zero_record (element_spec ds)))"
    by (simp add: ds_concatenate_def Let_def me fe)
  have cc: "cardinality (ds_concatenate ?m ?f) = int (length xs) + k"
    using k0 by (simp add: ds_concatenate_def Let_def mc fc INFINITE_CARDINALITY_def
        UNKNOWN_CARDINALITY_def)
  from pad ce cc show ?thesis by (simp add: k_def)
qed

lemma cast_example_index_value:
  "cast_example_index (index_tensor i) =
     Tensor [] DT_INT32 [IntV (sint (word_of_int (int i) :: 32 word))]"
  by (simp add: cast_example_index_def index_tensor_def tf_cast_def)

lemma folded_index_eq_iff:
  "cast_example_index (index_tensor i) = cast_example_index (index_tensor j)
     \<longleftrightarrow> i mod 2 ^ 32 = j mod 2 ^ 32"
proof -
  have "cast_example_index (index_tensor i) = cast_example_index (index_tensor j)
     \<longleftrightarrow> sint (word_of_int (int i) :: 32 word) = sint (word_of_int (int j) :: 32 word)"
    by (simp add: cast_example_index_value)
  also have "\<dots> \<longleftrightarrow> (word_of_int (int i) :: 32 word) = word_of_int (int j)"
    by (simp add: word_eq_iff_signed [where ?'a = int])
  also have "\<dots> \<longleftrightarrow> take_bit 32 (int i) = take_bit 32 (int j)"
    using word_of_int_eq_iff [where ?'a = 32, of "int i" "int j"] by simp
  also have "\<dots> \<longleftrightarrow> int i mod 2 ^ 32 = int j mod 2 ^ 32"
    by (simp add: take_bit_eq_mod)
  also have "\<dots> \<longleftrightarrow> int (i mod 2 ^ 32) = int (j mod 2 ^ 32)"
    by (simp add: zmod_int)
  also have "\<dots> \<longleftrightarrow> i mod 2 ^ 32 = j mod 2 ^ 32"
    by (rule of_nat_eq_iff)
  finally show ?thesis .
qed

lemma element_at_enumerate:
  assumes "element_at e i = Some x" and "int i < int64_max"
  shows "element_at (enumerate_elems e) i = Some (index_tensor i, x)"
proof (cases e)
  case (Fin xs)
  with assms have i: "i < length xs" and x: "x = xs ! i"
    by (auto simp: element_at_def split: if_splits)
  define ys where "ys = (if int (length xs) \<le> int64_max then xs else take (nat int64_max) xs)"
  from i assms(2) have iy: "i < length ys" and yi: "ys ! i = xs ! i"
    by (auto simp: ys_def)
  have "enumerate_elems e = Fin (map (\<lambda>(i, x). (index_tensor i, x)) (List.enumerate 0 ys))"
    by (simp add: Fin ys_def)
  with iy yi x show ?thesis
    by (simp add: element_at_def nth_enumerate_eq)
next
  case (Inf g)
  with assms have x: "x = g i" by (simp add: element_at_def)
  from assms(2) have "i < nat int64_max" by simp
  with x show ?thesis by (simp add: Inf element_at_def)
qed

lemma element_at_map:
  "element_at e i = Some x \<Longrightarrow> element_at (map_elems f e) i = Some (f x)"
  by (cases e) (auto simp: element_at_def split: if_splits)

subsection \<open>Padding\<close>

text \<open>
  Claim C5 says that padding appends exactly \<open>pad_up_to_batches * product(batch_dims) -
  observed_count\<close> records. Line 269 takes the count from \<open>ds.cardinality()\<close>, which is
  \<open>-2\<close> after a \<open>filter\<close>. With 10 examples, a filter that accepts all of them, batches
  of 4 and \<open>pad_up_to_batches = 3\<close> the code appends \<open>3 * 4 + 2 = 14\<close> records instead of
  2 and yields 6 batches instead of 3, the last three made of padding only.
\<close>

theorem padding_after_filter_overshoots:
  "cardinality (ds_filter accept_all (range_builder 10 (SplitName ''train'') False
      \<lparr>shuffle_seed = None,
       options = \<lparr>map_parallelization = True, private_threadpool_size = 48,
                  max_intra_op_parallelism = 1\<rparr>\<rparr> None)) = - 2 \<and>
   masks (create_dataset plain_externals (range_builder 10)
     ((default_args (SplitName ''train''))
        \<lparr>batch_dims := [4], filter_fn := Some accept_all, num_epochs := Some 1,
         shuffle := False, pad_up_to_batches := Some 3\<rparr>)) =
   Inr [[BoolV True, BoolV True, BoolV True, BoolV True],
        [BoolV True, BoolV True, BoolV True, BoolV True],
        [BoolV True, BoolV True, BoolV False, BoolV False],
        [BoolV False, BoolV False, BoolV False, BoolV False],
        [BoolV False, BoolV False, BoolV False, BoolV False],
        [BoolV False, BoolV False, BoolV False, BoolV False]]"
  by code_simp

text \<open>
  The padding scenario of the spec, with a cardinality that is known: 10 examples, batches
  of 4, \<open>pad_up_to_batches = 3\<close> and one epoch give 3 batches; the first two are real
  examples only and the last holds 2 real examples followed by 2 padding records.
\<close>

theorem padding_with_known_cardinality:
  "masks (create_dataset plain_externals (range_builder 10)
     ((default_args (SplitName ''train''))
        \<lparr>batch_dims := [4], num_epochs := Some 1, shuffle := False,
         pad_up_to_batches := Some 3\<rparr>)) =
   Inr [[BoolV True, BoolV True, BoolV True, BoolV True],
        [BoolV True, BoolV True, BoolV True, BoolV True],
        [BoolV True, BoolV True, BoolV False, BoolV False]]"
  by code_simp

text \<open>
  Padding with a known cardinality. Let the dataset that reaches line 258 be finite and
  report its number of examples, let every shape of its element specification be known
  and no feature be called \<open>mask\<close>, let \<open>pad_up_to_batches\<close> not be 0 and \<open>batch_dims\<close>
  not be empty. When \<open>needed = pad_up_to_batches * product(batch_dims) - count\<close>, computed
  in \<open>int64\<close>, is not negative, the padded dataset is every example with \<open>mask = True\<close>
  followed by exactly \<open>needed\<close> zero records with \<open>mask = False\<close>.
\<close>

theorem padding_appends_needed_fillers:
  assumes "elems ds = Fin xs" and "cardinality ds = int (length xs)"
    and "p \<noteq> 0" and "dims \<noteq> []"
    and "\<forall>(name, s)\<in>set (element_spec ds). None \<notin> set (shape s)"
    and "''mask'' \<notin> fst ` set (element_spec ds)"
    and "0 \<le> sint (p * np_prod dims - word_of_int (int (length xs)))"
  shows "\<exists>ds'. pad_up_to (Some p) dims ds = Inr ds' \<and>
     elems ds' =
       Fin (map add_mask xs @
            replicate (nat (sint (p * np_prod dims - word_of_int (int (length xs)))))
              (zero_record (element_spec ds))) \<and>
     cardinality ds' = int (length xs) + sint (p * np_prod dims - word_of_int (int (length xs)))"
  using assms by (rule pad_up_to_exact)

theorem padding_appends_needed_fillers_witness:
  "\<exists>ds'. pad_up_to (Some 3) [4]
       (range_builder 10 (SplitName ''train'') False
          \<lparr>shuffle_seed = None,
           options = \<lparr>map_parallelization = True, private_threadpool_size = 48,
                      max_intra_op_parallelism = 1\<rparr>\<rparr> None) = Inr ds' \<and>
     elems ds' =
       Fin (map add_mask (map (\<lambda>i. [(''x'', index_tensor i)]) [0..<10]) @
            replicate 2 (zero_record [(''x'', TensorSpec [] DT_INT64)])) \<and>
     cardinality ds' = 12"
  using padding_appends_needed_fillers
    [of "range_builder 10 (SplitName ''train'') False
          \<lparr>shuffle_seed = None,
           options = \<lparr>map_parallelization = True, private_threadpool_size = 48,
                      max_intra_op_parallelism = 1\<rparr>\<rparr> None"
        "map (\<lambda>i. [(''x'', index_tensor i)]) [0..<10]" 3 "[4]"]
  by (simp add: range_builder_def np_prod_def)

text \<open>
  Claim C6 says that \<open>create_dataset\<close> fails whenever \<open>pad_up_to_batches\<close> is set and
  \<open>needed = pad_up_to_batches * product(batch_dims) - observed_count\<close> is negative. With
  10 examples, batches of 4 and \<open>pad_up_to_batches = 2\<close>, \<open>needed\<close> is \<open>-2\<close> and the
  assertion of line 270 fires. After a filter that accepts all 10 examples
  \<open>ds.cardinality()\<close> is \<open>-2\<close>, line 269 computes \<open>2 * 4 + 2 = 10\<close>, the assertion
  passes and the call returns 5 batches.
\<close>

theorem padding_underflow_missed_after_filter:
  "cardinality (ds_filter accept_all (range_builder 10 (SplitName ''train'') False
      \<lparr>shuffle_seed = None,
       options = \<lparr>map_parallelization = True, private_threadpool_size = 48,
                  max_intra_op_parallelism = 1\<rparr>\<rparr> None)) = - 2 \<and>
   \<not> raises (create_dataset plain_externals (range_builder 10)
     ((default_args (SplitName ''train''))
        \<lparr>batch_dims := [4], filter_fn := Some accept_all, num_epochs := Some 1,
         shuffle := False, pad_up_to_batches := Some 2\<rparr>)) \<and>
   masks (create_dataset plain_externals (range_builder 10)
     ((default_args (SplitName ''train''))
        \<lparr>batch_dims := [4], filter_fn := Some accept_all, num_epochs := Some 1,
         shuffle := False, pad_up_to_batches := Some 2\<rparr>)) =
   Inr [[BoolV True, BoolV True, BoolV True, BoolV True],
        [BoolV True, BoolV True, BoolV True, BoolV True],
        [BoolV True, BoolV True, BoolV False, BoolV False],
        [BoolV False, BoolV False, BoolV False, BoolV False],
        [BoolV False, BoolV False, BoolV False, BoolV False]] \<and>
   masks (create_dataset plain_externals (range_builder 10)
     ((default_args (SplitName ''train''))
        \<lparr>batch_dims := [4], num_epochs := Some 1, shuffle := False,
         pad_up_to_batches := Some 2\<rparr>)) =
   Inl (AssertionError (InvalidPadding (- 2) [4] 10 2))"
  by code_simp

text \<open>
  Claim C10. With \<open>pad_up_to_batches = 0\<close> the padding step returns its dataset
  unchanged: no record is appended and no \<open>mask\<close> feature is added.
  \<open>create_dataset\<close> returns what it returns with \<open>pad_up_to_batches = None\<close>, and the
  assertion on the padding is never raised, however many examples the source has.
\<close>

theorem zero_padding_is_disabled:
  "pad_up_to (Some 0) dims ds = Inr ds \<and>
   create_dataset ext b (args\<lparr>pad_up_to_batches := Some 0\<rparr>) =
     create_dataset ext b (args\<lparr>pad_up_to_batches := None\<rparr>) \<and>
   (\<forall>m. create_dataset ext b (args\<lparr>pad_up_to_batches := Some 0\<rparr>) \<noteq> Inl (AssertionError m))"
proof -
  have p0: "pad_up_to (Some 0) dims' ds' = Inr ds'" for dims' ds'
    by (simp add: pad_up_to_def)
  have pn: "pad_up_to None dims' ds' = Inr ds'" for dims' ds'
    by (simp add: pad_up_to_def)
  have eq: "create_dataset ext b (args\<lparr>pad_up_to_batches := Some 0\<rparr>) =
     create_dataset ext b (args\<lparr>pad_up_to_batches := None\<rparr>)"
    by (simp add: create_dataset_def read_and_preprocess_ignores_padding p0 pn
        cong: sum.case_cong)
  have na: "create_dataset ext b (args\<lparr>pad_up_to_batches := Some 0\<rparr>) \<noteq> Inl (AssertionError m)" for m
  proof
    assume a: "create_dataset ext b (args\<lparr>pad_up_to_batches := Some 0\<rparr>) = Inl (AssertionError m)"
    show False
    proof (cases "read_and_preprocess ext b args")
      case (Inl e)
      with a have "e = AssertionError m"
        by (simp add: create_dataset_def read_and_preprocess_ignores_padding)
      with Inl show False by (auto simp: read_and_preprocess_Inl_iff)
    next
      case (Inr ds1)
      show False
      proof (cases "batch_loop (rev (batch_dims args)) ds1")
        case (Inl e)
        with a Inr have "e = AssertionError m"
          by (simp add: create_dataset_def read_and_preprocess_ignores_padding p0)
        with batch_loop_Inl [OF Inl] show False by auto
      next
        case b3: (Inr ds3)
        with a Inr have "ds_prefetch (prefetch_size args) ds3 = Inl (AssertionError m)"
          by (simp add: create_dataset_def read_and_preprocess_ignores_padding p0)
        from ds_prefetch_Inl [OF this] show False by auto
      qed
    qed
  qed
  from p0 eq na show ?thesis by blast
qed

theorem zero_padding_is_disabled_witness:
  "create_dataset plain_externals (range_builder 5)
     ((default_args (SplitName ''train''))
        \<lparr>batch_dims := [1], num_epochs := Some 1, shuffle := False,
         pad_up_to_batches := Some 0\<rparr>) \<noteq>
     Inl (AssertionError (InvalidPadding (- 5) [1] 5 0)) \<and>
   masks (create_dataset plain_externals (range_builder 5)
     ((default_args (SplitName ''train''))
        \<lparr>batch_dims := [1], num_epochs := Some 1, shuffle := False,
         pad_up_to_batches := Some 0\<rparr>)) = Inr [[], [], [], [], []]"
proof -
  let ?base = "(default_args (SplitName ''train''))
        \<lparr>batch_dims := [1], num_epochs := Some 1, shuffle := False\<rparr> :: unit create_dataset_args"
  let ?zero = "create_dataset plain_externals (range_builder 5) (?base\<lparr>pad_up_to_batches := Some 0\<rparr>)"
  let ?none = "create_dataset plain_externals (range_builder 5) (?base\<lparr>pad_up_to_batches := None\<rparr>)"
  note t = zero_padding_is_disabled [of "[1]" "range_builder 5 (SplitName ''train'') False
      \<lparr>shuffle_seed = None,
       options = \<lparr>map_parallelization = True, private_threadpool_size = 48,
                  max_intra_op_parallelism = 1\<rparr>\<rparr> None" plain_externals "range_builder 5" ?base]
  from t have eq: "?zero = ?none" by blast
  from t have ne: "?zero \<noteq> Inl (AssertionError (InvalidPadding (- 5) [1] 5 0))" by blast
  have "masks ?none = Inr [[], [], [], [], []]" by code_simp
  then have "masks ?zero = Inr [[], [], [], [], []]" by (simp only: eq)
  with ne show ?thesis by blast
qed

subsection \<open>The seed check\<close>

text \<open>
  Claim C7. \<open>create_dataset\<close> raises the \<open>ValueError\<close> of line 224 (the spec's
  missing seed error) exactly when \<open>shuffle = True\<close> and \<open>rng = None\<close>, whatever the
  other arguments, the collaborators and the dataset builder are: the call that builds
  the pipeline returns the error and no dataset. When \<open>shuffle = False\<close> and
  \<open>rng = None\<close> the check passes and lines 225 to 256 deliver a dataset; so they do
  whenever the check passes and the shuffle buffer, if there is one, has a positive size.
\<close>

theorem missing_seed_raises:
  "(create_dataset ext b args = Inl (ValueError PleaseSetRng)
      \<longleftrightarrow> shuffle args \<and> rng args = None) \<and>
   (\<not> shuffle args \<and> rng args = None
      \<longrightarrow> (\<exists>ds. read_and_preprocess ext b args = Inr ds)) \<and>
   (\<not> (shuffle args \<and> rng args = None) \<and> (shuffle args \<longrightarrow> 0 < shuffle_buffer_size args)
      \<longrightarrow> (\<exists>ds. read_and_preprocess ext b args = Inr ds))"
proof -
  have fail: "create_dataset ext b args = Inl (ValueError PleaseSetRng)"
    if "shuffle args \<and> rng args = None"
  proof -
    from that have "read_and_preprocess ext b args = Inl (ValueError PleaseSetRng)"
      by (simp add: read_and_preprocess_Inl_iff)
    then show ?thesis by (simp add: create_dataset_def)
  qed
  have only: "shuffle args \<and> rng args = None"
    if "create_dataset ext b args = Inl (ValueError PleaseSetRng)"
    using create_dataset_Inl_cases [OF that] by auto
  have one: "\<exists>ds. read_and_preprocess ext b args = Inr ds"
    if "\<not> shuffle args \<and> rng args = None"
    using that by (simp add: read_without_shuffle)
  have two: "\<exists>ds. read_and_preprocess ext b args = Inr ds"
    if "\<not> (shuffle args \<and> rng args = None) \<and> (shuffle args \<longrightarrow> 0 < shuffle_buffer_size args)"
  proof (cases "shuffle args")
    case True
    with that show ?thesis by (simp add: read_with_buffer)
  next
    case False
    then show ?thesis by (rule read_without_shuffle)
  qed
  from fail only one two show ?thesis by blast
qed

theorem missing_seed_raises_witness:
  "create_dataset plain_externals (range_builder 5)
     ((default_args (SplitName ''train'')) \<lparr>batch_dims := [1], rng := None, shuffle := True\<rparr>) =
     Inl (ValueError PleaseSetRng) \<and>
   create_dataset plain_externals (range_builder 5)
     ((default_args (SplitName ''train'')) \<lparr>batch_dims := [1], rng := None, shuffle := False\<rparr>) \<noteq>
     Inl (ValueError PleaseSetRng) \<and>
   (\<exists>ds. read_and_preprocess plain_externals (range_builder 5)
     ((default_args (SplitName ''train'')) \<lparr>batch_dims := [1], rng := None, shuffle := False\<rparr>) =
     Inr ds)"
  using
    missing_seed_raises [of plain_externals "range_builder 5"
      "(default_args (SplitName ''train'')) \<lparr>batch_dims := [1], rng := None, shuffle := True\<rparr>"]
    missing_seed_raises [of plain_externals "range_builder 5"
      "(default_args (SplitName ''train'')) \<lparr>batch_dims := [1], rng := None, shuffle := False\<rparr>"]
  by (simp add: default_args_def)

subsection \<open>The key of an example\<close>

text \<open>
  Claim C9 says that the enumeration index is folded in as a 64-bit integer, so that
  indices that differ as 64-bit integers are folded as different values. Line 156 casts
  the index to \<open>int32\<close> first: the indices \<open>2 ^ 32\<close> and \<open>0\<close> are folded as the same
  value and the two examples get the same \<open>rng\<close> feature.
\<close>

theorem example_index_wraps_counterexample:
  "index_tensor (2 ^ 32) \<noteq> index_tensor 0 \<and>
   cast_example_index (index_tensor (2 ^ 32)) = cast_example_index (index_tensor 0) \<and>
   example_fn plain_externals id (Tensor [2] DT_UINT32 [IntV 0, IntV 42]) (index_tensor (2 ^ 32))
       [(''x'', index_tensor 7)] =
   example_fn plain_externals id (Tensor [2] DT_UINT32 [IntV 0, IntV 42]) (index_tensor 0)
       [(''x'', index_tensor 7)]"
  by (simp add: index_tensor_def cast_example_index_def tf_cast_def example_fn_def)

text \<open>
  Claim C9, amended. For the example at enumeration position \<open>i\<close> the \<open>rng\<close> feature
  given to the preprocessing function is the stateless fold of the preprocessing key,
  cast to \<open>int64\<close>, with the index \<open>i\<close> cast to \<open>int32\<close> (the low 32 bits of \<open>i\<close>, read
  as a signed number); the feature is removed from the result. Two positions are folded
  as the same index value exactly when they agree modulo \<open>2 ^ 32\<close>.
\<close>

theorem per_example_rng_folds_int32_index:
  "(element_at (elems ds) i = Some x \<and> int i < int64_max \<longrightarrow>
      element_at (elems (preprocess_with_per_example_rng ext ds f key)) i =
        Some (let processed =
                    call f (AList.update ''rng''
                      (stateless_fold_in ext (tf_cast key DT_INT64)
                         (Tensor [] DT_INT32 [IntV (sint (word_of_int (int i) :: 32 word))])) x)
              in if ''rng'' \<in> fst ` set processed
                 then AList.delete ''rng'' processed else processed)) \<and>
   (cast_example_index (index_tensor i) = cast_example_index (index_tensor j)
      \<longleftrightarrow> i mod 2 ^ 32 = j mod 2 ^ 32)"
proof -
  have one: "element_at (elems (preprocess_with_per_example_rng ext ds f key)) i =
        Some (let processed =
                    call f (AList.update ''rng''
                      (stateless_fold_in ext (tf_cast key DT_INT64)
                         (Tensor [] DT_INT32 [IntV (sint (word_of_int (int i) :: 32 word))])) x)
              in if ''rng'' \<in> fst ` set processed
                 then AList.delete ''rng'' processed else processed)"
    if a: "element_at (elems ds) i = Some x" and b: "int i < int64_max"
  proof -
    have "element_at (enumerate_elems (elems ds)) i = Some (index_tensor i, x)"
      using a b by (rule element_at_enumerate)
    then have "element_at (elems (preprocess_with_per_example_rng ext ds f key)) i =
        Some (example_fn ext (call f) key (index_tensor i) x)"
      by (simp add: preprocess_with_per_example_rng_def ds_map_def ds_enumerate_def Let_def
          element_at_map)
    then show ?thesis
      by (simp add: example_fn_def cast_example_index_value Let_def)
  qed
  from one folded_index_eq_iff show ?thesis by blast
qed

theorem per_example_rng_folds_int32_index_witness:
  "element_at (elems (preprocess_with_per_example_rng plain_externals
       (range_builder 3 (SplitName ''train'') False
          \<lparr>shuffle_seed = None,
           options = \<lparr>map_parallelization = True, private_threadpool_size = 48,
                      max_intra_op_parallelism = 1\<rparr>\<rparr> None)
       \<lparr>call = id, signature = id\<rparr> (Tensor [2] DT_UINT32 [IntV 0, IntV 42]))) 2 =
     Some [(''x'', index_tensor 2)] \<and>
   cast_example_index (index_tensor 5) \<noteq> cast_example_index (index_tensor 6)"
proof -
  let ?ds = "range_builder 3 (SplitName ''train'') False
          \<lparr>shuffle_seed = None,
           options = \<lparr>map_parallelization = True, private_threadpool_size = 48,
                      max_intra_op_parallelism = 1\<rparr>\<rparr> None"
  have e: "element_at (elems ?ds) 2 = Some [(''x'', index_tensor 2)]"
    by code_simp
  have m: "int 2 < int64_max" by (simp add: int64_max_def)
  note t = per_example_rng_folds_int32_index [of ?ds 2 "[(''x'', index_tensor 2)]"
      plain_externals "\<lparr>call = id, signature = id\<rparr>" "Tensor [2] DT_UINT32 [IntV 0, IntV 42]"]
  from t [of 6] e m have one: "element_at (elems (preprocess_with_per_example_rng plain_externals ?ds
       \<lparr>call = id, signature = id\<rparr> (Tensor [2] DT_UINT32 [IntV 0, IntV 42]))) 2 =
     Some [(''x'', index_tensor 2)]"
    by (simp add: Let_def)
  from per_example_rng_folds_int32_index [of ?ds 5 "[]" plain_externals
      "\<lparr>call = id, signature = id\<rparr>" "Tensor [2] DT_UINT32 [IntV 0, IntV 42]" 6]
  have two: "cast_example_index (index_tensor 5) \<noteq> cast_example_index (index_tensor 6)"
    by simp
  from one two show ?thesis by blast
qed

end
